theory Spec2Isabelle
  imports Complex_Main
begin

section \<open>DEMA crossover strategy with ATR and SMA200 filters (DemaTema2.py)\<close>

text \<open>
  The program is a strategy class driven by an external backtesting engine, a reporting
  function \<open>full_backtest\<close> and a main block. The embedding follows the source
  line by line. A Python float is a real number that a double represents. The order size
  is computed as the source computes it, every operation rounded to the nearest double and
  an overflow giving an infinity; comparisons are exact. In the reporting the annualized
  ratio and the win rate stand for the floats the source computes, without their rounding.
  What the external libraries supply (indicator values, the position, the available cash,
  the analyzers' results, the data frame operations) enters the model as input.
\<close>

subsection \<open>Data\<close>

type_synonym timestamp = int

text \<open>
  The exceptions the modelled code can raise. A \<open>KeyError\<close> raised without an
  argument carries the empty string.
\<close>

datatype py_error =
    ValueError string
  | TypeError
  | ZeroDivisionError
  | OverflowError
  | KeyError string

text \<open>The order statuses of the engine, of which the source names three.\<close>

datatype order_status =
    Created | Submitted | Accepted | Partial | Completed
  | Canceled | Expired | Margin | Rejected

text \<open>What \<open>notify_order\<close> reads from the order object it is given.\<close>

record order_note =
  status :: order_status
  isbuy :: bool
  executed_price :: real
  executed_size :: int

text \<open>
  The two requests the strategy makes of the engine: \<open>self.buy(size=size)\<close> and
  \<open>self.close()\<close>, which closes the whole position.
\<close>

datatype order_req = Buy int | Close

datatype side = BUY | SELL

text \<open>
  The text of a line printed by \<open>log\<close>, by its format string and the values
  formatted into it.
\<close>

datatype log_msg =
    BuySignalBar real real real
  | SellSignalBar real real
  | Executed side real int

text \<open>
  A printed line: the bar's date, the ticker and the message. The bar's timestamp stands
  for its date.
\<close>

type_synonym log_line = "timestamp \<times> string \<times> log_msg"

text \<open>
  The mutable fields of the strategy object. \<open>order\<close> holds the order returned by the
  last \<open>buy\<close> or \<open>close\<close> call, or \<open>None\<close>.
\<close>

record strategy =
  buy_signals :: "(timestamp \<times> real) list"
  sell_signals :: "(timestamp \<times> real) list"
  order :: "order_req option"

text \<open>
  What the strategy reads from the engine on the current bar: the bar's timestamp, the
  size of the position (\<open>self.position\<close> is true when the size is not zero), the
  broker's cash, the close price and the indicator lines at index 0.
\<close>

record bar_view =
  datetime :: timestamp
  position :: int
  cash :: real
  data_close :: real
  crossover :: real
  atr :: real
  atr_sma :: real
  sma_trend :: real

text \<open>
  The effect of one call of \<open>next\<close>: the strategy afterwards, the order submitted to
  the engine if any, the lines printed, and the exception raised if any.
\<close>

record outcome =
  strat :: strategy
  submitted :: "order_req option"
  logged :: "log_line list"
  raised :: "py_error option"

subsection \<open>Parameters\<close>

definition default_ticker :: string where
  "default_ticker = ''CHILE.SN''"

definition fast_dema :: nat where
  "fast_dema = 10"

definition slow_dema :: nat where
  "slow_dema = 22"

text \<open>The literal \<open>0.95\<close> denotes the double nearest to 95/100.\<close>

definition order_percentage :: real where
  "order_percentage = 8556839292003942 / 2 ^ 53"

definition atr_period :: nat where
  "atr_period = 14"

definition atr_sma_period :: nat where
  "atr_sma_period = 14"

definition trend_period :: nat where
  "trend_period = 200"

subsection \<open>The strategy\<close>

definition init :: strategy where
  "init = \<lparr>buy_signals = [], sell_signals = [], order = None\<rparr>"

text \<open>\<open>log(txt)\<close> with no date given prints the current bar's date.\<close>

definition log_line_of :: "bar_view \<Rightarrow> log_msg \<Rightarrow> log_line" where
  "log_line_of v m = (datetime v, default_ticker, m)"

text \<open>
  Double arithmetic. A result is the exact result rounded to the nearest double, ties to
  the even significand: the unit in the last place of a number in the binade of
  \<open>2 ^ e\<close> is \<open>2 ^ (e - 52)\<close>, and \<open>2 ^ (- 1074)\<close> below the normal range.
  A rounded result of magnitude \<open>2 ^ 1024\<close> or more is an infinity, \<open>None\<close> here.
\<close>

definition round_half_even :: "real \<Rightarrow> int" where
  "round_half_even y =
     (let f = \<lfloor>y\<rfloor>; d = y - of_int f
      in if d < 1 / 2 then f else if 1 / 2 < d then f + 1 else if even f then f else f + 1)"

definition ulp_exponent :: "real \<Rightarrow> int" where
  "ulp_exponent x = max \<lfloor>log 2 \<bar>x\<bar>\<rfloor> (- 1022) - 52"

definition round_double :: "real \<Rightarrow> real option" where
  "round_double x =
     (if x = 0 then Some 0
      else
        (let u = 2 powr of_int (ulp_exponent x);
             r = of_int (round_half_even (x / u)) * u
         in if 2 powr 1024 \<le> \<bar>r\<bar> then None else Some r))"

text \<open>The value of a float expression: a finite double or an infinity.\<close>

datatype py_float = Finite real | Infinite

text \<open>\<open>a * b\<close> on two finite floats.\<close>

definition float_mul :: "real \<Rightarrow> real \<Rightarrow> py_float" where
  "float_mul a b = (case round_double (a * b) of None \<Rightarrow> Infinite | Some r \<Rightarrow> Finite r)"

text \<open>
  \<open>a / b\<close> for a finite divisor: a zero divisor raises \<open>ZeroDivisionError\<close>, an
  infinite dividend stays infinite.
\<close>

definition float_div :: "py_float \<Rightarrow> real \<Rightarrow> py_error + py_float" where
  "float_div a b =
     (if b = 0 then Inl ZeroDivisionError
      else case a of
             Infinite \<Rightarrow> Inr Infinite
           | Finite x \<Rightarrow>
               Inr (case round_double (x / b) of None \<Rightarrow> Infinite | Some r \<Rightarrow> Finite r))"

text \<open>
  Python's \<open>int\<close> of a float truncates towards zero and raises
  \<open>OverflowError\<close> on an infinity.
\<close>

definition py_int :: "py_float \<Rightarrow> py_error + int" where
  "py_int x =
     (case x of
        Infinite \<Rightarrow> Inl OverflowError
      | Finite r \<Rightarrow> Inr (if 0 \<le> r then \<lfloor>r\<rfloor> else \<lceil>r\<rceil>))"

text \<open>The float \<open>(cash * self.params.order_percentage) / self.data_close[0]\<close>.\<close>

definition order_quotient :: "real \<Rightarrow> real \<Rightarrow> py_error + py_float" where
  "order_quotient csh cls = float_div (float_mul csh order_percentage) cls"

text \<open>
  \<open>notify_order\<close>: nothing happens for a submitted or accepted order; a completed
  order is logged and recorded in the list of its direction; every status other than
  submitted and accepted clears \<open>self.order\<close>. The timestamp is the current bar's.
\<close>

definition notify_order :: "timestamp \<Rightarrow> order_note \<Rightarrow> strategy \<Rightarrow> strategy \<times> log_line list" where
  "notify_order now ord s =
     (if status ord = Submitted \<or> status ord = Accepted then (s, [])
      else if status ord = Completed then
        (let dt = now;
             price = executed_price ord;
             sd = (if isbuy ord then BUY else SELL);
             line = (now, default_ticker, Executed sd price (executed_size ord));
             s1 = (if isbuy ord
                   then s\<lparr>buy_signals := buy_signals s @ [(dt, price)]\<rparr>
                   else s\<lparr>sell_signals := sell_signals s @ [(dt, price)]\<rparr>)
         in (s1\<lparr>order := None\<rparr>, [line]))
      else (s\<lparr>order := None\<rparr>, []))"

text \<open>
  \<open>next\<close>. The entry branch logs the signal bar, reads the cash, computes the size
  (the division or the conversion to \<open>int\<close> may raise), and buys when the size is
  positive. The exit branch logs and closes the position.
\<close>

definition "next" :: "bar_view \<Rightarrow> strategy \<Rightarrow> outcome" where
  "next v s =
     (if position v = 0 \<and> crossover v > 0 \<and> data_close v > sma_trend v
         \<and> atr v > atr_sma v then
        (let line = log_line_of v (BuySignalBar (data_close v) (atr v) (sma_trend v));
             csh = cash v
         in case order_quotient csh (data_close v) of
              Inl e \<Rightarrow> \<lparr>strat = s, submitted = None, logged = [line], raised = Some e\<rparr>
            | Inr q \<Rightarrow>
                (case py_int q of
                   Inl e \<Rightarrow> \<lparr>strat = s, submitted = None, logged = [line], raised = Some e\<rparr>
                 | Inr sz \<Rightarrow>
                     if sz > 0 then
                       \<lparr>strat = s\<lparr>order := Some (Buy sz)\<rparr>, submitted = Some (Buy sz),
                        logged = [line], raised = None\<rparr>
                     else \<lparr>strat = s, submitted = None, logged = [line], raised = None\<rparr>))
      else if position v \<noteq> 0 \<and> crossover v < 0 \<and> atr v > atr_sma v then
        \<lparr>strat = s\<lparr>order := Some Close\<rparr>, submitted = Some Close,
         logged = [log_line_of v (SellSignalBar (data_close v) (atr v))], raised = None\<rparr>
      else \<lparr>strat = s, submitted = None, logged = [], raised = None\<rparr>)"

subsection \<open>Reporting: \<open>full_backtest\<close>\<close>

text \<open>
  How \<open>full_backtest\<close> sets the engine up: no standard observers, the starting cash
  and the commission. The Sharpe analyzer (daily timeframe), the drawdown analyzer and the
  trade analyzer are attached under the names \<open>sharpe\<close>, \<open>drawdown\<close> and
  \<open>trades\<close>.
\<close>

record cerebro_config =
  stdstats :: bool
  broker_cash :: real
  broker_commission :: real

definition config :: cerebro_config where
  "config = \<lparr>stdstats = False, broker_cash = 10000, broker_commission = 1 / 1000\<rparr>"

text \<open>
  What \<open>full_backtest\<close> reads after \<open>cerebro.run()\<close>: the dictionary of the Sharpe
  analyzer (a key may be missing, and a value may be \<open>None\<close>), the maximal drawdown,
  the counts \<open>trades.total.total\<close> and \<open>trades.won.total\<close>, the broker's final
  value and the strategy's two signal lists. The result of the trade analyzer is a closed
  dictionary: reading an entry it does not hold raises \<open>KeyError\<close>, and \<open>None\<close>
  stands for such an entry. The analyzer creates \<open>total.total\<close> at the start and
  counts in it every trade that has been opened; it creates the \<open>won\<close> entry when
  the first trade closes.
\<close>

record run_result =
  sharpe_analysis :: "string \<Rightarrow> real option option"
  max_drawdown :: real
  total_total :: "int option"
  won_total :: "int option"
  broker_value :: real
  run_buy_signals :: "(timestamp \<times> real) list"
  run_sell_signals :: "(timestamp \<times> real) list"

text \<open>The five values of the summary line, in the order they are formatted.\<close>

record summary =
  final_value :: real
  sharpe :: real
  drawdown :: real
  trades :: int
  win_rate_pct :: real

text \<open>
  The chart: the close line over the index, the buy and the sell markers (drawn only when
  the list is not empty) and the title.
\<close>

record plot =
  close_line :: "timestamp list \<times> real list"
  buy_markers :: "(timestamp list \<times> real list) option"
  sell_markers :: "(timestamp list \<times> real list) option"
  title :: string

text \<open>What the program does that can be observed from outside, in order.\<close>

datatype 'df effect =
    Backtest cerebro_config 'df
  | PrintSummary summary
  | ShowPlot plot

record 'df run_output =
  effects :: "'df effect list"
  aborted :: "py_error option"

text \<open>
  The operations of the libraries the program calls on a data frame of type \<open>'df\<close>:
  the download, \<open>df.empty\<close>, the test
  \<open>isinstance(df.columns, pd.MultiIndex) and ticker in df.columns.levels[1]\<close>,
  \<open>df.xs(ticker, axis=1, level=1)\<close>, \<open>name in df.columns\<close>,
  \<open>df[dst] = df[src]\<close>, \<open>df.rename(columns=...)\<close>, \<open>df.index\<close>,
  \<open>df[name]\<close> (\<open>None\<close> when there is no such column) and the run of the engine
  with the strategy on the frame.
\<close>

record 'df library =
  yf_download :: "string \<Rightarrow> string \<Rightarrow> 'df"
  df_empty :: "'df \<Rightarrow> bool"
  multi_with_ticker :: "string \<Rightarrow> 'df \<Rightarrow> bool"
  df_xs :: "string \<Rightarrow> 'df \<Rightarrow> 'df"
  has_column :: "string \<Rightarrow> 'df \<Rightarrow> bool"
  copy_column :: "string \<Rightarrow> string \<Rightarrow> 'df \<Rightarrow> 'df"
  rename_columns :: "(string \<times> string) list \<Rightarrow> 'df \<Rightarrow> 'df"
  df_index :: "'df \<Rightarrow> timestamp list"
  df_column :: "string \<Rightarrow> 'df \<Rightarrow> real list option"
  cerebro_run :: "cerebro_config \<Rightarrow> 'df \<Rightarrow> run_result"

text \<open>\<open>d.get(k, None)\<close>.\<close>

definition dict_get :: "('k \<Rightarrow> 'v option option) \<Rightarrow> 'k \<Rightarrow> 'v option" where
  "dict_get d k = (case d k of None \<Rightarrow> None | Some v \<Rightarrow> v)"

text \<open>
  \<open>ann_sr = sr * (252**0.5) if sr else None\<close>: the condition is the truth value of
  \<open>sr\<close>, false for \<open>None\<close> and for \<open>0.0\<close>.
\<close>

definition annualize :: "real option \<Rightarrow> real option" where
  "annualize sr =
     (case sr of
        None \<Rightarrow> None
      | Some x \<Rightarrow> if x \<noteq> 0 then Some (x * sqrt 252) else None)"

text \<open>Reading an entry of the closed dictionary.\<close>

definition read_entry :: "int option \<Rightarrow> py_error + int" where
  "read_entry x = (case x of None \<Rightarrow> Inl (KeyError []) | Some n \<Rightarrow> Inr n)"

text \<open>\<open>x or 0\<close> for a count.\<close>

definition or_zero :: "int \<Rightarrow> int" where
  "or_zero n = (if n \<noteq> 0 then n else 0)"

text \<open>\<open>win_rate = won/total*100 if total else 0\<close>, with Python's true division.\<close>

definition win_rate :: "int \<Rightarrow> int \<Rightarrow> real" where
  "win_rate won tot = (if tot \<noteq> 0 then real_of_int won / real_of_int tot * 100 else 0)"

text \<open>
  The format specification \<open>:.2f\<close> applied to a value: \<open>None\<close> does not accept it
  and raises \<open>TypeError\<close>. The digits printed for a number are not modelled.
\<close>

definition format_2f :: "real option \<Rightarrow> py_error + real" where
  "format_2f x = (case x of None \<Rightarrow> Inl TypeError | Some r \<Rightarrow> Inr r)"

text \<open>\<open>zip(*signals)\<close> for a list of pairs that is not empty.\<close>

definition markers :: "(timestamp \<times> real) list \<Rightarrow> (timestamp list \<times> real list) option" where
  "markers sig = (if sig \<noteq> [] then Some (map fst sig, map snd sig) else None)"

text \<open>
  \<open>full_backtest\<close>, statement by statement after the run: the ratio, the drawdown, the
  two counts (each read may raise), the win rate, the summary line (the format may raise)
  and the chart (the column read may raise).
\<close>

definition full_backtest :: "'df library \<Rightarrow> 'df \<Rightarrow> 'df run_output" where
  "full_backtest lib df =
     (let res = cerebro_run lib config df;
          ran = Backtest config df;
          sr = dict_get (sharpe_analysis res) ''sharperatio'';
          ann_sr = annualize sr;
          dd = max_drawdown res
      in case read_entry (total_total res) of
           Inl e \<Rightarrow> \<lparr>effects = [ran], aborted = Some e\<rparr>
         | Inr t \<Rightarrow>
             (let total = or_zero t
              in case read_entry (won_total res) of
                   Inl e \<Rightarrow> \<lparr>effects = [ran], aborted = Some e\<rparr>
                 | Inr w \<Rightarrow>
                     (let won = or_zero w;
                          rate = win_rate won total
                      in case format_2f ann_sr of
                           Inl e \<Rightarrow> \<lparr>effects = [ran], aborted = Some e\<rparr>
                         | Inr sh \<Rightarrow>
                             (let line = PrintSummary
                                    \<lparr>final_value = broker_value res, sharpe = sh,
                                     drawdown = dd, trades = total, win_rate_pct = rate\<rparr>
                              in case df_column lib ''close'' df of
                                   None \<Rightarrow>
                                     \<lparr>effects = [ran, line],
                                      aborted = Some (KeyError ''close'')\<rparr>
                                 | Some closes \<Rightarrow>
                                     \<lparr>effects = [ran, line,
                                        ShowPlot
                                          \<lparr>close_line = (df_index lib df, closes),
                                           buy_markers = markers (run_buy_signals res),
                                           sell_markers = markers (run_sell_signals res),
                                           title = ''Strategy Signals: '' @ default_ticker\<rparr>],
                                      aborted = None\<rparr>))))"

subsection \<open>The main block\<close>

definition renames :: "(string \<times> string) list" where
  "renames = [(''Open'', ''open''), (''High'', ''high''), (''Low'', ''low''),
              (''Close'', ''close''), (''Volume'', ''volume'')]"

definition main :: "'df library \<Rightarrow> 'df run_output" where
  "main lib =
     (let df = yf_download lib default_ticker ''2y''
      in if df_empty lib df then
           \<lparr>effects = [], aborted = Some (ValueError (''No data for '' @ default_ticker))\<rparr>
         else
           (let df1 = (if multi_with_ticker lib default_ticker df
                       then df_xs lib default_ticker df else df);
                df2 = (if has_column lib ''Adj Close'' df1
                       then copy_column lib ''Adj Close'' ''Close'' df1 else df1);
                df3 = rename_columns lib renames df2
            in full_backtest lib df3))"

subsection \<open>Concrete bars, strategies and results on which the model is run\<close>

definition entry_bar :: bar_view where
  "entry_bar = \<lparr>datetime = 210, position = 0, cash = 10000, data_close = 100,
                 crossover = 1, atr = 2, atr_sma = 1, sma_trend = 90\<rparr>"

definition exit_bar :: bar_view where
  "exit_bar = \<lparr>datetime = 250, position = 95, cash = 490, data_close = 110,
                crossover = - 1, atr = 3, atr_sma = 2, sma_trend = 95\<rparr>"


text \<open>A bar whose close is the double \<open>1.9\<close>, with a cash of \<open>12.0\<close>.\<close>

definition rounding_bar :: bar_view where
  "rounding_bar = \<lparr>datetime = 212, position = 0, cash = 12,
                    data_close = 8556839292003942 / 2 ^ 52,
                    crossover = 1, atr = 2, atr_sma = 1, sma_trend = 1\<rparr>"

definition buy_fill :: order_note where
  "buy_fill = \<lparr>status = Completed, isbuy = True, executed_price = 101, executed_size = 95\<rparr>"

definition sell_fill :: order_note where
  "sell_fill = \<lparr>status = Completed, isbuy = False, executed_price = 109, executed_size = - 95\<rparr>"

text \<open>
  A run without a closed trade and with no Sharpe ratio; a run with the ratio missing and
  trades closed; a run with four trades, three of them won; a run with one trade, still
  open.
\<close>

definition no_sharpe_result :: run_result where
  "no_sharpe_result =
     \<lparr>sharpe_analysis = (\<lambda>k. if k = ''sharperatio'' then Some None else None),
      max_drawdown = 0, total_total = Some 0, won_total = None, broker_value = 10000,
      run_buy_signals = [], run_sell_signals = []\<rparr>"

definition no_sharpe_traded_result :: run_result where
  "no_sharpe_traded_result =
     \<lparr>sharpe_analysis = (\<lambda>k. if k = ''sharperatio'' then Some None else None),
      max_drawdown = 1, total_total = Some 1, won_total = Some 1, broker_value = 10010,
      run_buy_signals = [(1, 10)], run_sell_signals = [(2, 11)]\<rparr>"

definition some_sharpe_result :: run_result where
  "some_sharpe_result =
     \<lparr>sharpe_analysis = (\<lambda>k. if k = ''sharperatio'' then Some (Some (1 / 10)) else None),
      max_drawdown = 5, total_total = Some 4, won_total = Some 3, broker_value = 10500,
      run_buy_signals = [(1, 10)], run_sell_signals = []\<rparr>"

definition open_trade_result :: run_result where
  "open_trade_result =
     \<lparr>sharpe_analysis = (\<lambda>k. if k = ''sharperatio'' then Some (Some (1 / 10)) else None),
      max_drawdown = 2, total_total = Some 1, won_total = None, broker_value = 10100,
      run_buy_signals = [(1, 10)], run_sell_signals = []\<rparr>"

text \<open>
  The library whose engine reports \<open>x\<close> under the key \<open>sharperatio\<close> and is
  otherwise \<open>lib\<close>.
\<close>

definition with_sharpe :: "real option \<Rightarrow> 'df library \<Rightarrow> 'df library" where
  "with_sharpe x lib =
     lib\<lparr>cerebro_run := (\<lambda>c d. (cerebro_run lib c d)
            \<lparr>sharpe_analysis :=
               (sharpe_analysis (cerebro_run lib c d)) (''sharperatio'' := Some x)\<rparr>)\<rparr>"

text \<open>
  A small instance of the library: a frame is its index and its named columns, the
  download and the engine return what they are given.
\<close>

record frame =
  idx :: "timestamp list"
  cols :: "(string \<times> real list) list"

definition frame_library :: "frame \<Rightarrow> run_result \<Rightarrow> frame library" where
  "frame_library downloaded res =
     \<lparr>yf_download = (\<lambda>_ _. downloaded),
      df_empty = (\<lambda>f. idx f = [] \<or> cols f = []),
      multi_with_ticker = (\<lambda>_ _. False),
      df_xs = (\<lambda>_ f. f),
      has_column = (\<lambda>c f. c \<in> set (map fst (cols f))),
      copy_column = (\<lambda>src dst f.
        case map_of (cols f) src of
          None \<Rightarrow> f
        | Some xs \<Rightarrow> f\<lparr>cols := (if dst \<in> set (map fst (cols f))
                                 then map (\<lambda>(c, ys). if c = dst then (c, xs) else (c, ys)) (cols f)
                                 else cols f @ [(dst, xs)])\<rparr>),
      rename_columns = (\<lambda>rn f.
        f\<lparr>cols := map (\<lambda>(c, ys). (case map_of rn c of None \<Rightarrow> c | Some c' \<Rightarrow> c', ys)) (cols f)\<rparr>),
      df_index = idx,
      df_column = (\<lambda>c f. map_of (cols f) c),
      cerebro_run = (\<lambda>_ _. res)\<rparr>"


definition two_day_frame :: frame where
  "two_day_frame = \<lparr>idx = [1, 2], cols = [(''Close'', [10, 11])]\<rparr>"

definition prepared_frame :: frame where
  "prepared_frame = \<lparr>idx = [1, 2], cols = [(''close'', [10, 11])]\<rparr>"

subsection \<open>The engine's loop over the bars\<close>

text \<open>
  Modelled from the spec: the simulation engine and the indicator library are external and
  not part of the sources. What follows models the contract the specification gives for
  them: the engine advances one bar at a time, executes pending orders, notifies the
  strategy of every order state transition, and invokes the strategy's decision once all
  indicators are defined; an indicator is undefined until its trailing window is filled.
\<close>

text \<open>
  Modelled from the spec: one bar of the price series with the indicator lines the library
  computes for it, \<open>None\<close> while a line is still undefined. The crossover, the ATR
  and its average are inputs; the trend average is computed from the closes below.
\<close>

record feed_bar =
  bar_time :: timestamp
  bar_open :: real
  bar_close :: real
  line_crossover :: "real option"
  line_atr :: "real option"
  line_atr_sma :: "real option"

text \<open>Modelled from the spec: the broker's running position and cash.\<close>

record account =
  acct_position :: int
  acct_cash :: real

text \<open>
  Modelled from the spec: what the broker does with a pending order on a bar. \<open>None\<close>:
  the order remains pending; otherwise the account afterwards and the notification sent to
  the strategy. Fill prices and commission are the broker's business, so the broker is a
  parameter of the loop.
\<close>

type_synonym broker = "feed_bar \<Rightarrow> order_req \<Rightarrow> account \<Rightarrow> (account \<times> order_note) option"

text \<open>
  Modelled from the spec: the state of a run. \<open>eng_closes\<close> holds the closes seen so
  far, newest first; \<open>eng_orders\<close> lists every order the strategy submitted with the
  number of its bar, counted from 1.
\<close>

record engine =
  eng_strategy :: strategy
  eng_account :: account
  eng_pending :: "order_req list"
  eng_closes :: "real list"
  eng_orders :: "(nat \<times> order_req) list"
  eng_log :: "log_line list"
  eng_raised :: "py_error option"

text \<open>
  Modelled from the spec: the simple moving average over a trailing window of
  \<open>period\<close> values, undefined until the window is filled.
\<close>

definition sma :: "nat \<Rightarrow> real list \<Rightarrow> real option" where
  "sma period newest_first =
     (if period = 0 \<or> length newest_first < period then None
      else Some (sum_list (take period newest_first) / real period))"

text \<open>
  Modelled from the spec: the broker goes through the pending orders on a bar; each order
  it resolves is notified to the strategy through \<open>notify_order\<close>.
\<close>

fun settle :: "broker \<Rightarrow> feed_bar \<Rightarrow> order_req list \<Rightarrow> strategy \<times> account \<times> log_line list
    \<Rightarrow> order_req list \<times> strategy \<times> account \<times> log_line list" where
  "settle br b [] (s, a, lg) = ([], s, a, lg)"
| "settle br b (r # rs) (s, a, lg) =
     (case br b r a of
        None \<Rightarrow> (case settle br b rs (s, a, lg) of (p, rest) \<Rightarrow> (r # p, rest))
      | Some (a1, note) \<Rightarrow>
          (case notify_order (bar_time b) note s of
             (s1, l1) \<Rightarrow> settle br b rs (s1, a1, lg @ l1)))"

text \<open>
  Modelled from the spec: what the strategy sees on a bar, once every indicator is
  defined. The trend average is the simple moving average of the closes over
  \<open>trend_period\<close> bars.
\<close>

definition view_of :: "feed_bar \<Rightarrow> account \<Rightarrow> real list \<Rightarrow> bar_view option" where
  "view_of b a closes =
     (case (line_crossover b, line_atr b, line_atr_sma b, sma trend_period closes) of
        (Some c, Some t, Some ts, Some tr) \<Rightarrow>
          Some \<lparr>datetime = bar_time b, position = acct_position a, cash = acct_cash a,
                data_close = bar_close b, crossover = c, atr = t, atr_sma = ts,
                sma_trend = tr\<rparr>
      | _ \<Rightarrow> None)"

text \<open>
  Modelled from the spec: a submitted order is notified to the strategy as submitted and
  then as accepted.
\<close>

definition acknowledge :: "timestamp \<Rightarrow> account \<Rightarrow> order_req option \<Rightarrow> strategy \<Rightarrow> strategy" where
  "acknowledge now a sub s =
     (case sub of
        None \<Rightarrow> s
      | Some r \<Rightarrow>
          (let buy = (case r of Buy _ \<Rightarrow> True | Close \<Rightarrow> acct_position a < 0);
               note = \<lparr>status = Submitted, isbuy = buy, executed_price = 0, executed_size = 0\<rparr>;
               s1 = fst (notify_order now note s)
           in fst (notify_order now (note\<lparr>status := Accepted\<rparr>) s1)))"

text \<open>
  Modelled from the spec: one bar of the run. The broker settles the pending orders; if
  all indicators are defined the strategy's \<open>next\<close> is invoked and the order it
  submits becomes pending. A run that has raised stays as it is.
\<close>

definition on_bar :: "broker \<Rightarrow> feed_bar \<Rightarrow> engine \<Rightarrow> engine" where
  "on_bar br b e =
     (if eng_raised e \<noteq> None then e
      else
        (let closes = bar_close b # eng_closes e
         in case settle br b (eng_pending e) (eng_strategy e, eng_account e, eng_log e) of
              (pend, s1, a1, lg1) \<Rightarrow>
                (case view_of b a1 closes of
                   None \<Rightarrow>
                     e\<lparr>eng_strategy := s1, eng_account := a1, eng_pending := pend,
                       eng_closes := closes, eng_log := lg1\<rparr>
                 | Some v \<Rightarrow>
                     (let out = next v s1;
                          new = (case submitted out of None \<Rightarrow> [] | Some r \<Rightarrow> [r])
                      in \<lparr>eng_strategy = acknowledge (bar_time b) a1 (submitted out) (strat out),
                          eng_account = a1,
                          eng_pending = pend @ new,
                          eng_closes = closes,
                          eng_orders = eng_orders e @ map (Pair (length closes)) new,
                          eng_log = lg1 @ logged out,
                          eng_raised = raised out\<rparr>))))"

text \<open>Modelled from the spec: the bars are processed in order.\<close>

fun run_from :: "broker \<Rightarrow> feed_bar list \<Rightarrow> engine \<Rightarrow> engine" where
  "run_from br [] e = e"
| "run_from br (b # bs) e = run_from br bs (on_bar br b e)"

text \<open>
  Modelled from the spec: a run starts flat, with the cash \<open>full_backtest\<close> sets and
  nothing pending.
\<close>

definition start :: engine where
  "start = \<lparr>eng_strategy = init,
            eng_account = \<lparr>acct_position = 0, acct_cash = broker_cash config\<rparr>,
            eng_pending = [], eng_closes = [], eng_orders = [], eng_log = [],
            eng_raised = None\<rparr>"

definition run_bars :: "broker \<Rightarrow> feed_bar list \<Rightarrow> engine" where
  "run_bars br bars = run_from br bars start"

text \<open>
  Modelled from the spec: a broker that executes every pending order on the bar after its
  submission, at that bar's open, and deducts the proportional commission.
\<close>

definition next_bar_broker :: broker where
  "next_bar_broker b r a =
     (let price = bar_open b; pos = acct_position a; fee = broker_commission config
      in case r of
           Buy n \<Rightarrow>
             Some (a\<lparr>acct_position := pos + n,
                     acct_cash := acct_cash a - real_of_int n * price * (1 + fee)\<rparr>,
                   \<lparr>status = Completed, isbuy = True, executed_price = price,
                    executed_size = n\<rparr>)
         | Close \<Rightarrow>
             Some (a\<lparr>acct_position := 0,
                     acct_cash := acct_cash a + real_of_int pos * price
                                   - \<bar>real_of_int pos\<bar> * price * fee\<rparr>,
                   \<lparr>status = Completed, isbuy = (pos < 0), executed_price = price,
                    executed_size = - pos\<rparr>))"

text \<open>
  A series of 200 bars: 189 bars closing at 100, ten bars closing at 98 and a 200th bar
  that closes at 120, on which the fast average crosses above the slow one with the ATR
  above its average. The lines of the shorter indicators are undefined on the first bars.
\<close>

definition history_bar :: "nat \<Rightarrow> feed_bar" where
  "history_bar i =
     \<lparr>bar_time = int i,
      bar_open = (if i < 190 then 100 else 98),
      bar_close = (if i < 190 then 100 else 98),
      line_crossover = (if i < 44 then None else if i = 190 then Some (- 1) else Some 0),
      line_atr = (if i < 15 then None else Some 1),
      line_atr_sma = (if i < 28 then None else Some 1)\<rparr>"

definition signal_bar :: "nat \<Rightarrow> feed_bar" where
  "signal_bar i = \<lparr>bar_time = int i, bar_open = 101, bar_close = 120,
                    line_crossover = Some 1, line_atr = Some 3, line_atr_sma = Some (8 / 7)\<rparr>"

definition warmup_series :: "feed_bar list" where
  "warmup_series = map history_bar [1..<200] @ [signal_bar 200]"

section \<open>Properties\<close>

subsection \<open>Double arithmetic\<close>

lemma round_half_even_bounds:
  "y - 1 < of_int (round_half_even y)" "of_int (round_half_even y) < y + 1"
  unfolding round_half_even_def Let_def by (auto; linarith)+

lemma floor_log2:
  assumes "2 powr of_int e \<le> x" and "x < 2 powr (of_int e + 1)"
  shows "\<lfloor>log 2 x\<rfloor> = e"
proof -
  have pos: "0 < x" using assms(1) by (smt (verit) powr_gt_zero)
  have "of_int e \<le> log 2 x" using assms(1) pos by (simp add: le_log_iff)
  moreover have "log 2 x < of_int e + 1" using assms(2) pos by (simp add: log_less_iff)
  ultimately show ?thesis by (simp add: floor_eq_iff)
qed

text \<open>Rounding a number of a normal binade, where no overflow can occur.\<close>

lemma round_double_binade:
  assumes lo: "2 powr of_int e \<le> \<bar>x\<bar>" and hi: "\<bar>x\<bar> < 2 powr (of_int e + 1)"
    and e: "- 1022 \<le> e" "e \<le> 1022"
  shows "round_double x
     = Some (of_int (round_half_even (x / 2 powr of_int (e - 52))) * 2 powr of_int (e - 52))"
proof -
  have nz: "x \<noteq> 0" using lo by (smt (verit) powr_gt_zero)
  have ue: "ulp_exponent x = e - 52"
    using floor_log2 [OF lo hi] e by (simp add: ulp_exponent_def)
  define u :: real where "u = 2 powr of_int (e - 52)"
  have upos: "0 < u" by (simp add: u_def)
  define r :: real where "r = of_int (round_half_even (x / u)) * u"
  have "\<bar>of_int (round_half_even (x / u))\<bar> < \<bar>x / u\<bar> + 1"
    using round_half_even_bounds [of "x / u"] by linarith
  then have "\<bar>r\<bar> < (\<bar>x / u\<bar> + 1) * u"
    unfolding r_def using upos by (simp add: abs_mult)
  also have "\<dots> = \<bar>x\<bar> + u" using upos by (simp add: field_simps abs_mult)
  also have "\<dots> < 2 powr (of_int e + 1) + 2 powr (of_int e + 1)"
  proof -
    have "u < 2 powr (of_int e + 1)" unfolding u_def by (intro powr_less_mono) simp_all
    then show ?thesis using hi by linarith
  qed
  also have "\<dots> = 2 powr (of_int e + 2)"
    by (simp add: powr_add)
  also have "\<dots> \<le> 2 powr 1024"
    using e by (intro powr_mono) simp_all
  finally have "\<bar>r\<bar> < 2 powr 1024" .
  then show ?thesis
    using nz ue by (simp add: round_double_def Let_def u_def r_def)
qed

lemma order_percentage_nearest: "round_double (95 / 100) = Some order_percentage"
  using round_double_binade [of "- 1" "95 / 100"]
  by (simp add: round_half_even_def powr_minus_divide order_percentage_def)

text \<open>The quotients of the bars used below, in double arithmetic.\<close>

lemma quotient_entry: "order_quotient 10000 100 = Inr (Finite 95)"
proof -
  have "round_double (10000 * order_percentage) = Some 9500"
    using round_double_binade [of 13 "10000 * order_percentage"]
    by (simp add: round_half_even_def powr_minus_divide order_percentage_def)
  moreover have "round_double (9500 / 100) = Some 95"
    using round_double_binade [of 6 "9500 / 100"]
    by (simp add: round_half_even_def powr_minus_divide)
  ultimately show ?thesis
    by (simp add: order_quotient_def float_mul_def float_div_def)
qed


lemma quotient_bar_200: "order_quotient 10000 120 = Inr (Finite (5570858914065067 / 2 ^ 46))"
proof -
  have "round_double (10000 * order_percentage) = Some 9500"
    using round_double_binade [of 13 "10000 * order_percentage"]
    by (simp add: round_half_even_def powr_minus_divide order_percentage_def)
  moreover have "round_double (9500 / 120) = Some (5570858914065067 / 2 ^ 46)"
    using round_double_binade [of 6 "9500 / 120"]
    by (simp add: round_half_even_def powr_minus_divide)
  ultimately show ?thesis
    by (simp add: order_quotient_def float_mul_def float_div_def)
qed

lemma quotient_rounding:
  "order_quotient 12 (8556839292003942 / 2 ^ 52) = Inr (Finite (6755399441055743 / 2 ^ 50))"
proof -
  have "round_double (12 * order_percentage) = Some (1604407367250739 / 2 ^ 47)"
    using round_double_binade [of 3 "12 * order_percentage"]
    by (simp add: round_half_even_def powr_minus_divide order_percentage_def)
  moreover have "round_double (1604407367250739 / 2 ^ 47 / (8556839292003942 / 2 ^ 52))
      = Some (6755399441055743 / 2 ^ 50)"
    using round_double_binade [of 2 "1604407367250739 / 2 ^ 47 / (8556839292003942 / 2 ^ 52)"]
    by (simp add: round_half_even_def powr_minus_divide)
  ultimately show ?thesis
    by (simp add: order_quotient_def float_mul_def float_div_def)
qed

text \<open>
  With a cash of \<open>12.0\<close> and a close of \<open>1.9\<close> the source buys 5 shares: the double
  quotient is just below 6, which exact arithmetic would give.
\<close>

lemma rounding_bar_size: "submitted (next rounding_bar init) = Some (Buy 5)"
  using quotient_rounding by (simp add: next_def rounding_bar_def py_int_def Let_def)

subsection \<open>The decisions of \<open>next\<close>\<close>





text \<open>What the entry branch raises: a zero close and an infinite quotient.\<close>

lemma entry_order_errors:
  assumes "position v = 0" and "crossover v > 0" and "data_close v > sma_trend v"
    and "atr v > atr_sma v"
  shows "(data_close v = 0 \<longrightarrow> raised (next v s) = Some ZeroDivisionError)
    \<and> (order_quotient (cash v) (data_close v) = Inr Infinite \<longrightarrow>
          raised (next v s) = Some OverflowError)"
  using assms
  by (simp add: next_def Let_def order_quotient_def float_div_def py_int_def)

text \<open>
  C5. On a bar where a position is held, \<open>next\<close> submits the order that closes the
  whole position when the crossover is downward and the ATR is above its average, and
  submits nothing when either fails.
\<close>

theorem exit_closes_position:
  assumes "position v \<noteq> 0"
  shows "submitted (next v s) =
           (if crossover v < 0 \<and> atr v > atr_sma v then Some Close else None)
         \<and> raised (next v s) = None"
  using assms by (simp add: next_def)

theorem exit_closes_position_witness:
  "position exit_bar \<noteq> 0 \<and> crossover exit_bar < 0 \<and> atr exit_bar > atr_sma exit_bar
   \<and> submitted (next exit_bar init) = Some Close"
  using exit_closes_position [of exit_bar init]
  by (simp add: exit_bar_def)

text \<open>
  C6. On every bar, \<open>next\<close> submits a close order only while a position is open and a
  buy order only while the strategy is flat.
\<close>

theorem next_order_matches_position:
  "(submitted (next v s) = Some Close \<longrightarrow> position v \<noteq> 0)
   \<and> (\<forall>n. submitted (next v s) = Some (Buy n) \<longrightarrow> position v = 0)"
  by (simp add: next_def Let_def split: sum.splits)

theorem next_order_matches_position_witness:
  "submitted (next exit_bar init) = Some Close \<and> position exit_bar \<noteq> 0
   \<and> submitted (next entry_bar init) = Some (Buy 95) \<and> position entry_bar = 0"
  using next_order_matches_position [of exit_bar init]
        next_order_matches_position [of entry_bar init] quotient_entry
  by (simp add: next_def exit_bar_def entry_bar_def py_int_def)

subsection \<open>The signal lists\<close>

text \<open>
  C9. A fill notification is a notification of a completed order. It appends the pair of
  the bar's timestamp and the fill price to the buy list for a buy and to the sell list
  for a sell, leaving the other list as it is. The two lists have no influence on a
  decision: \<open>next\<close> on strategies that differ only in the two lists submits the same
  order, raises the same, prints the same and leaves the same pending order, and so does
  \<open>notify_order\<close> for the pending order.
\<close>

theorem signal_lists_record_only:
  "(status ord = Completed \<longrightarrow>
      buy_signals (fst (notify_order now ord s)) =
        (if isbuy ord then buy_signals s @ [(now, executed_price ord)] else buy_signals s)
      \<and> sell_signals (fst (notify_order now ord s)) =
        (if isbuy ord then sell_signals s else sell_signals s @ [(now, executed_price ord)]))
   \<and> submitted (next v (s\<lparr>buy_signals := bs, sell_signals := ss\<rparr>)) = submitted (next v s)
   \<and> raised (next v (s\<lparr>buy_signals := bs, sell_signals := ss\<rparr>)) = raised (next v s)
   \<and> logged (next v (s\<lparr>buy_signals := bs, sell_signals := ss\<rparr>)) = logged (next v s)
   \<and> order (strat (next v (s\<lparr>buy_signals := bs, sell_signals := ss\<rparr>)))
       = order (strat (next v s))
   \<and> order (fst (notify_order now ord (s\<lparr>buy_signals := bs, sell_signals := ss\<rparr>)))
       = order (fst (notify_order now ord s))"
  by (simp add: notify_order_def next_def Let_def split: sum.splits)

theorem signal_lists_record_only_witness:
  "status buy_fill = Completed
   \<and> buy_signals (fst (notify_order 211 buy_fill init)) = [(211, 101)]
   \<and> sell_signals (fst (notify_order 211 buy_fill init)) = []
   \<and> status sell_fill = Completed
   \<and> buy_signals (fst (notify_order 251 sell_fill init)) = []
   \<and> sell_signals (fst (notify_order 251 sell_fill init)) = [(251, 109)]"
  using signal_lists_record_only [of buy_fill 211 init]
    signal_lists_record_only [of sell_fill 251 init]
  by (simp add: buy_fill_def sell_fill_def init_def)

subsection \<open>Reporting\<close>

text \<open>
  C2. When the per-period Sharpe ratio is absent, the annualized ratio is \<open>None\<close>; the
  claim adds that the summary line special-cases the absence. The source formats the value
  with \<open>:.2f\<close> unconditionally, so \<open>full_backtest\<close> raises \<open>TypeError\<close> at the
  summary line, unless a count is missing from the trade analysis and reading it has
  raised \<open>KeyError\<close> before. Either way the run ends in an exception after the
  backtest, before the summary is printed and before the chart.
\<close>

theorem absent_sharpe_aborts_summary:
  assumes "dict_get (sharpe_analysis (cerebro_run lib config df)) ''sharperatio'' = None"
  shows "annualize (dict_get (sharpe_analysis (cerebro_run lib config df)) ''sharperatio'') = None
    \<and> full_backtest lib df =
        \<lparr>effects = [Backtest config df],
         aborted = Some (if total_total (cerebro_run lib config df) = None
                           \<or> won_total (cerebro_run lib config df) = None
                         then KeyError [] else TypeError)\<rparr>"
  using assms
  by (simp add: full_backtest_def annualize_def format_2f_def read_entry_def Let_def
      split: option.splits)

theorem absent_sharpe_aborts_summary_witness:
  "dict_get (sharpe_analysis (cerebro_run (frame_library prepared_frame no_sharpe_traded_result)
       config prepared_frame)) ''sharperatio'' = None
   \<and> full_backtest (frame_library prepared_frame no_sharpe_traded_result) prepared_frame
      = \<lparr>effects = [Backtest config prepared_frame], aborted = Some TypeError\<rparr>
   \<and> dict_get (sharpe_analysis (cerebro_run (frame_library prepared_frame no_sharpe_result)
       config prepared_frame)) ''sharperatio'' = None
   \<and> full_backtest (frame_library prepared_frame no_sharpe_result) prepared_frame
      = \<lparr>effects = [Backtest config prepared_frame], aborted = Some (KeyError [])\<rparr>"
  using absent_sharpe_aborts_summary
    [of "frame_library prepared_frame no_sharpe_traded_result" prepared_frame]
    absent_sharpe_aborts_summary
    [of "frame_library prepared_frame no_sharpe_result" prepared_frame]
  by (simp add: frame_library_def no_sharpe_result_def no_sharpe_traded_result_def dict_get_def)

text \<open>
  C10. A per-period ratio of exactly \<open>0.0\<close> is false in the condition, so the
  annualized ratio is \<open>None\<close> as for an absent ratio, and \<open>full_backtest\<close> behaves
  on the two runs in the same way.
\<close>

theorem zero_sharpe_reported_absent:
  "annualize (Some 0) = None
   \<and> annualize (Some 0) = annualize None
   \<and> full_backtest (with_sharpe (Some 0) lib) df = full_backtest (with_sharpe None lib) df
   \<and> full_backtest (with_sharpe (Some 0) lib) df
       = \<lparr>effects = [Backtest config df],
          aborted = Some (if total_total (cerebro_run lib config df) = None
                            \<or> won_total (cerebro_run lib config df) = None
                          then KeyError [] else TypeError)\<rparr>"
  by (simp add: annualize_def full_backtest_def with_sharpe_def dict_get_def format_2f_def
      read_entry_def Let_def split: option.splits)

text \<open>Line 89: the win rate of two counts.\<close>

lemma win_rate_values:
  "win_rate won 0 = 0"
  "0 < tot \<Longrightarrow> win_rate won tot = real_of_int won / real_of_int tot * 100"
  by (simp_all add: win_rate_def)

text \<open>What a printed summary reports: both counts were read from the analysis.\<close>

lemma printed_summary:
  assumes "PrintSummary sm \<in> set (effects (full_backtest lib df))"
  shows "\<exists>t w. total_total (cerebro_run lib config df) = Some t
           \<and> won_total (cerebro_run lib config df) = Some w
           \<and> trades sm = or_zero t \<and> win_rate_pct sm = win_rate (or_zero w) (or_zero t)"
  using assms
  by (auto simp: full_backtest_def read_entry_def Let_def split: sum.splits option.splits)

text \<open>
  C7. The claim is that the reported win rate is 0 when no trade has closed. In a run
  without a closed trade the trade analysis holds no \<open>won\<close> entry, and reading
  \<open>trades.won.total\<close> raises \<open>KeyError\<close>: \<open>full_backtest\<close> ends there, after the
  backtest, with no win rate computed and no summary printed.
\<close>

theorem no_closed_trade_aborts_report:
  assumes "won_total (cerebro_run lib config df) = None"
  shows "full_backtest lib df = \<lparr>effects = [Backtest config df], aborted = Some (KeyError [])\<rparr>"
  using assms
  by (simp add: full_backtest_def read_entry_def Let_def split: option.splits)

theorem no_closed_trade_aborts_report_witness:
  "won_total (cerebro_run (frame_library prepared_frame open_trade_result) config prepared_frame)
     = None
   \<and> full_backtest (frame_library prepared_frame open_trade_result) prepared_frame
       = \<lparr>effects = [Backtest config prepared_frame], aborted = Some (KeyError [])\<rparr>"
  using no_closed_trade_aborts_report
    [of "frame_library prepared_frame open_trade_result" prepared_frame]
  by (simp add: frame_library_def open_trade_result_def)

subsection \<open>The main block\<close>

text \<open>A complete run on a frame of two days.\<close>

lemma main_example_run:
  "main (frame_library two_day_frame some_sharpe_result)
     = \<lparr>effects =
          [Backtest config \<lparr>idx = [1, 2], cols = [(''close'', [10, 11])]\<rparr>,
           PrintSummary \<lparr>final_value = 10500, sharpe = 1 / 10 * sqrt 252, drawdown = 5,
             trades = 4, win_rate_pct = 75\<rparr>,
           ShowPlot \<lparr>close_line = ([1, 2], [10, 11]), buy_markers = Some ([1], [10]),
             sell_markers = None, title = ''Strategy Signals: CHILE.SN''\<rparr>],
        aborted = None\<rparr>"
  by (simp add: main_def full_backtest_def frame_library_def two_day_frame_def
      some_sharpe_result_def renames_def default_ticker_def dict_get_def annualize_def
      format_2f_def read_entry_def or_zero_def win_rate_def markers_def Let_def)




subsection \<open>The warm-up of the trend filter\<close>

lemma sma_Some_length: "sma p xs = Some m \<Longrightarrow> p \<le> length xs"
  by (simp add: sma_def split: if_splits)

lemma view_of_Some_length: "view_of b a closes = Some v \<Longrightarrow> trend_period \<le> length closes"
  by (auto simp: view_of_def split: option.splits dest: sma_Some_length)

lemma on_bar_orders:
  assumes "\<forall>(n, r) \<in> set (eng_orders e). 200 \<le> n"
  shows "\<forall>(n, r) \<in> set (eng_orders (on_bar br b e)). 200 \<le> n"
proof (cases "eng_raised e \<noteq> None")
  case True
  then show ?thesis using assms by (simp add: on_bar_def)
next
  case False
  obtain pend s1 a1 lg1 where st:
    "settle br b (eng_pending e) (eng_strategy e, eng_account e, eng_log e) = (pend, s1, a1, lg1)"
    by (metis prod_cases4)
  show ?thesis
  proof (cases "view_of b a1 (bar_close b # eng_closes e)")
    case None
    then show ?thesis using assms False st by (simp add: on_bar_def Let_def)
  next
    case (Some v)
    from view_of_Some_length [OF Some] have "200 \<le> Suc (length (eng_closes e))"
      by (simp add: trend_period_def)
    then show ?thesis using assms False st Some
      by (auto simp: on_bar_def Let_def split: option.splits)
  qed
qed

lemma run_from_orders:
  "\<forall>(n, r) \<in> set (eng_orders e). 200 \<le> n \<Longrightarrow>
   \<forall>(n, r) \<in> set (eng_orders (run_from br bars e)). 200 \<le> n"
proof (induction bars arbitrary: e)
  case Nil
  then show ?case by simp
next
  case (Cons b bs)
  show ?case using Cons.IH [OF on_bar_orders [OF Cons.prems]] by simp
qed

lemma on_bar_warmup:
  assumes "eng_raised e = None" and "eng_pending e = []"
    and "Suc (length (eng_closes e)) < 200"
  shows "on_bar br b e = e\<lparr>eng_closes := bar_close b # eng_closes e\<rparr>"
  using assms
  by (simp add: on_bar_def view_of_def sma_def trend_period_def Let_def split: option.splits)

lemma run_from_warmup:
  "eng_raised e = None \<Longrightarrow> eng_pending e = [] \<Longrightarrow> length (eng_closes e) + length bs < 200 \<Longrightarrow>
   run_from br bs e = e\<lparr>eng_closes := rev (map bar_close bs) @ eng_closes e\<rparr>"
proof (induction bs arbitrary: e)
  case Nil
  then show ?case by simp
next
  case (Cons b bs)
  have step: "on_bar br b e = e\<lparr>eng_closes := bar_close b # eng_closes e\<rparr>"
    using Cons.prems by (intro on_bar_warmup) simp_all
  show ?case using Cons.prems by (simp add: step Cons.IH)
qed

lemma run_from_append: "run_from br (xs @ ys) e = run_from br ys (run_from br xs e)"
  by (induction xs arbitrary: e) simp_all

lemma map_constant: "\<forall>x \<in> set xs. f x = c \<Longrightarrow> map f xs = replicate (length xs) c"
  by (induction xs) simp_all

lemma history_closes:
  "map bar_close (map history_bar [1..<200]) = replicate 189 100 @ replicate 10 98"
proof -
  have split: "[1..<200] = [1..<190] @ [190..<200]"
    using upt_add_eq_append [of 1 190 10] by (simp del: upt_rec_numeral)
  have early: "map (bar_close \<circ> history_bar) [1..<190] = replicate 189 100"
    using map_constant [of "[1..<190]" "bar_close \<circ> history_bar" 100]
    by (simp add: history_bar_def del: upt_rec_numeral)
  have late: "map (bar_close \<circ> history_bar) [190..<200] = replicate 10 98"
    using map_constant [of "[190..<200]" "bar_close \<circ> history_bar" 98]
    by (simp add: history_bar_def del: upt_rec_numeral)
  show ?thesis
    by (simp only: split map_append map_map early late)
qed

lemma warmup_run:
  "run_from br (map history_bar [1..<200]) start
     = start\<lparr>eng_closes := replicate 10 98 @ replicate 189 100\<rparr>"
proof -
  have "length (eng_closes start) + length (map history_bar [1..<200]) < 200"
    by (simp add: start_def)
  then have "run_from br (map history_bar [1..<200]) start
      = start\<lparr>eng_closes := rev (map bar_close (map history_bar [1..<200])) @ eng_closes start\<rparr>"
    by (intro run_from_warmup) (simp_all add: start_def)
  then show ?thesis
    by (simp only: history_closes) (simp add: start_def)
qed

lemma warmup_series_run:
  "run_bars br warmup_series
     = on_bar br (signal_bar 200) (start\<lparr>eng_closes := replicate 10 98 @ replicate 189 100\<rparr>)"
  by (simp only: run_bars_def warmup_series_def run_from_append warmup_run run_from.simps)

lemma sma_at_bar_200:
  "sma trend_period (120 # replicate 10 98 @ replicate 189 100) = Some 100"
  by (simp add: sma_def trend_period_def sum_list_replicate)

text \<open>The state after the 200th bar of the series: the buy is submitted and pending.\<close>

lemma bar_200_state:
  "on_bar next_bar_broker (signal_bar 200)
      (start\<lparr>eng_closes := replicate 10 98 @ replicate 189 100\<rparr>)
     = \<lparr>eng_strategy = init\<lparr>order := Some (Buy 79)\<rparr>,
        eng_account = \<lparr>acct_position = 0, acct_cash = 10000\<rparr>,
        eng_pending = [Buy 79], eng_closes = 120 # replicate 10 98 @ replicate 189 100,
        eng_orders = [(200, Buy 79)],
        eng_log = [(200, ''CHILE.SN'', BuySignalBar 120 3 100)],
        eng_raised = None\<rparr>"
  using quotient_bar_200
  by (simp add: on_bar_def start_def view_of_def sma_at_bar_200 signal_bar_def next_def
      py_int_def config_def Let_def acknowledge_def notify_order_def
      log_line_of_def default_ticker_def init_def)

lemma bar_200_orders:
  "eng_orders (on_bar next_bar_broker (signal_bar 200)
      (start\<lparr>eng_closes := replicate 10 98 @ replicate 189 100\<rparr>)) = [(200, Buy 79)]"
  by (simp add: bar_200_state)



text \<open>
  C4, as stated: no order is submitted on any of the first 200 bars. On the 200th bar the
  window of the trend average is filled, \<open>next\<close> is invoked and can buy: in the series
  of 200 bars above the strategy submits a buy on bar 200.
\<close>

theorem order_on_bar_200:
  "length warmup_series = 200
   \<and> (200, Buy 79) \<in> set (eng_orders (run_bars next_bar_broker warmup_series))"
  by (simp add: warmup_series_run bar_200_orders) (simp add: warmup_series_def)

text \<open>
  C4, amended: for every price series and every broker, no order is submitted on a bar
  before the 200th; every order the strategy submits is submitted on bar 200 or later.
\<close>

theorem no_order_before_bar_200:
  "\<forall>(n, r) \<in> set (eng_orders (run_bars br bars)). 200 \<le> n"
  unfolding run_bars_def by (rule run_from_orders) (simp add: start_def)

theorem no_order_before_bar_200_witness:
  "(200, Buy 79) \<in> set (eng_orders (run_bars next_bar_broker warmup_series))
   \<and> (200::nat) \<le> 200"
  using no_order_before_bar_200 [of next_bar_broker warmup_series]
  by (simp add: warmup_series_run bar_200_orders)

subsection \<open>Pending orders\<close>

text \<open>
  \<open>next\<close> does not read \<open>self.order\<close>: it decides in the same way whatever that
  field holds. That no signal meets a pending order is the engine's doing.
\<close>

lemma next_ignores_order_field:
  "submitted (next v (s\<lparr>order := p\<rparr>)) = submitted (next v s)"
  by (simp add: next_def Let_def split: sum.splits)










end
